theory Spec2Isabelle
  imports Main
begin

section \<open>JavaScript strings\<close>

text \<open>
  A string is a list of code units; the model covers code units below 256. The case
  maps act on the ASCII letters and leave every other code unit alone, which is what
  \<^verbatim>\<open>toLowerCase\<close> and \<^verbatim>\<open>toUpperCase\<close> do on ASCII text, and is all that a
  containment test against an ASCII pattern can see.
\<close>

definition upper_letters :: string where
  "upper_letters = ''ABCDEFGHIJKLMNOPQRSTUVWXYZ''"

definition lower_letters :: string where
  "lower_letters = ''abcdefghijklmnopqrstuvwxyz''"

definition lower_char :: "char \<Rightarrow> char" where
  "lower_char c = (case map_of (zip upper_letters lower_letters) c of Some l \<Rightarrow> l | None \<Rightarrow> c)"

definition upper_char :: "char \<Rightarrow> char" where
  "upper_char c = (case map_of (zip lower_letters upper_letters) c of Some u \<Rightarrow> u | None \<Rightarrow> c)"

definition toLowerCase :: "string \<Rightarrow> string" where
  "toLowerCase s = map lower_char s"

definition toUpperCase :: "string \<Rightarrow> string" where
  "toUpperCase s = map upper_char s"

fun startsWith :: "string \<Rightarrow> string \<Rightarrow> bool" where
  "startsWith s [] = True"
| "startsWith [] (p # ps) = False"
| "startsWith (c # cs) (p # ps) = (c = p \<and> startsWith cs ps)"

text \<open>\<^verbatim>\<open>s.includes(sub)\<close>: \<open>sub\<close> occurs in \<open>s\<close> at some position.\<close>

fun includes_str :: "string \<Rightarrow> string \<Rightarrow> bool" where
  "includes_str [] sub = (sub = [])"
| "includes_str (c # cs) sub = (startsWith (c # cs) sub \<or> includes_str cs sub)"

text \<open>
  The white space and line terminators that \<^verbatim>\<open>trim\<close> strips, among the code units
  below 256: TAB, LF, VT, FF, CR, SPACE and NO-BREAK SPACE.
\<close>

definition is_space :: "char \<Rightarrow> bool" where
  "is_space c = (c \<in> set [CHR 0x09, CHR 0x0A, CHR 0x0B, CHR 0x0C, CHR 0x0D, CHR 0x20, CHR 0xA0])"

definition trim :: "string \<Rightarrow> string" where
  "trim s = rev (dropWhile is_space (rev (dropWhile is_space s)))"

text \<open>\<^verbatim>\<open>x || fallback\<close> on a string that may be undefined: the empty string is falsy.\<close>

definition or_else :: "string option \<Rightarrow> string \<Rightarrow> string" where
  "or_else x fallback = (case x of None \<Rightarrow> fallback | Some t \<Rightarrow> if t = [] then fallback else t)"

text \<open>Truthiness of a value of type \<^verbatim>\<open>string | null\<close>.\<close>

definition truthy :: "string option \<Rightarrow> bool" where
  "truthy x = (case x of None \<Rightarrow> False | Some t \<Rightarrow> t \<noteq> [])"

text \<open>\<^verbatim>\<open>s.split(',')[1]\<close>: the text between the first comma and the second, undefined
  when \<open>s\<close> has no comma.\<close>

definition split_comma_1 :: "string \<Rightarrow> string option" where
  "split_comma_1 s =
     (case dropWhile (\<lambda>c. c \<noteq> CHR '','') s of
        [] \<Rightarrow> None
      | _ # rest \<Rightarrow> Some (takeWhile (\<lambda>c. c \<noteq> CHR '','') rest))"

subsection \<open>The regular expression \<^verbatim>\<open>/DKT-\d+/i\<close>\<close>

definition is_digit :: "char \<Rightarrow> bool" where
  "is_digit c = (c \<in> set ''0123456789'')"

text \<open>A match that starts at the first code unit: the four letters in either case, then
  the longest non-empty run of digits.\<close>

definition match_here :: "string \<Rightarrow> string option" where
  "match_here s =
     (let ds = takeWhile is_digit (drop 4 s)
      in if toLowerCase (take 4 s) = ''dkt-'' \<and> ds \<noteq> [] then Some (take 4 s @ ds) else None)"

text \<open>\<^verbatim>\<open>userMsg.match(/DKT-\d+/i)\<close>: the leftmost match, \<open>None\<close> for \<^verbatim>\<open>null\<close>.\<close>

fun match_DKT :: "string \<Rightarrow> string option" where
  "match_DKT [] = None"
| "match_DKT (c # cs) =
     (case match_here (c # cs) of Some m \<Rightarrow> Some m | None \<Rightarrow> match_DKT cs)"

section \<open>Data of the client\<close>

datatype role = User | Assistant

datatype status = Loading | Success | Error

text \<open>The type \<^verbatim>\<open>Message\<close>. The fields \<^verbatim>\<open>id\<close>, \<^verbatim>\<open>image\<close> and \<^verbatim>\<open>status\<close>
  carry a suffix, the first two because HOL has constants of these names, the last
  because \<^verbatim>\<open>Docket\<close> has a field of the same name.\<close>

record message =
  id_m :: string
  role :: role
  content :: string
  image_m :: "string option"
  status_m :: "status option"

record docket =
  id_d :: string
  customer_name :: string
  delivery_address :: string
  status_d :: string
  pod_verified :: nat
  updated_at :: string

text \<open>The requests that leave the client, in the order they are issued.\<close>

datatype request =
    GetDocket string
  | PostUpdate string string bool
  | VerifyPOD docket "string option"
  | Ask string

text \<open>What the outside world answers. \<open>GetOk\<close> and \<open>PostOk\<close> are responses with
  \<^verbatim>\<open>res.ok\<close>; \<open>GetThrew\<close>, \<open>PostThrew\<close> and \<open>GenThrew\<close> are a \<^verbatim>\<open>fetch\<close> or a
  \<^verbatim>\<open>generateContent\<close> that throws; \<open>GenText t\<close> is a result whose \<^verbatim>\<open>text\<close> is \<open>t\<close>
  (\<open>None\<close> for undefined).\<close>

datatype get_reply = GetOk docket | GetNotOk | GetThrew

datatype post_reply = PostOk | PostNotOk | PostThrew

datatype gen_reply = GenText "string option" | GenThrew

text \<open>
  The state of the component \<^verbatim>\<open>App\<close>: its five \<^verbatim>\<open>useState\<close> cells, the
  \<^verbatim>\<open>analyzePOD\<close> runs that wait for the verifier (what the closure of each holds:
  the message id, the image and the docket it was called with), and the requests issued
  so far.
\<close>

record app =
  messages :: "message list"
  input :: string
  isTyping :: bool
  currentDocket :: "docket option"
  pendingPodImage :: "string option"
  inflight :: "(string \<times> string \<times> docket) list"
  requests :: "request list"

definition greeting :: string where
  "greeting = ''Hello! I'm your POD Verification Assistant. Please provide a **Docket Number** to get started, or upload a **POD image** directly if you have one ready.''"

definition initial :: app where
  "initial = \<lparr>messages = [\<lparr>id_m = ''1'', role = Assistant, content = greeting, image_m = None, status_m = None\<rparr>],
     input = [], isTyping = False, currentDocket = None, pendingPodImage = None,
     inflight = [], requests = []\<rparr>"

section \<open>State updates\<close>

text \<open>\<^verbatim>\<open>addMessage\<close>: the message gets the identifier \<open>newId\<close> (in the source a random
  string, here a parameter) and is appended to the log.\<close>

definition addMessage :: "string \<Rightarrow> role \<Rightarrow> string \<Rightarrow> string option \<Rightarrow> status option \<Rightarrow> app \<Rightarrow> app" where
  "addMessage newId r c img st s =
     s\<lparr>messages := messages s @ [\<lparr>id_m = newId, role = r, content = c, image_m = img, status_m = st\<rparr>]\<rparr>"

text \<open>\<^verbatim>\<open>updateMessageStatus\<close>: the function it hands to \<^verbatim>\<open>setMessages\<close>, on the log.\<close>

definition updateMessageStatus :: "string \<Rightarrow> status option \<Rightarrow> string option \<Rightarrow> message list \<Rightarrow> message list" where
  "updateMessageStatus i st c prev =
     map (\<lambda>m. if id_m m = i
              then m\<lparr>status_m := st, content := (case c of Some x \<Rightarrow> x | None \<Rightarrow> content m)\<rparr>
              else m) prev"

definition setMessages :: "(message list \<Rightarrow> message list) \<Rightarrow> app \<Rightarrow> app" where
  "setMessages f s = s\<lparr>messages := f (messages s)\<rparr>"

section \<open>Calls to the docket store\<close>

definition fetchDocket :: "get_reply \<Rightarrow> string \<Rightarrow> app \<Rightarrow> docket option \<times> app" where
  "fetchDocket reply i s =
     (let s1 = s\<lparr>requests := requests s @ [GetDocket i]\<rparr>
      in case reply of
           GetOk data \<Rightarrow> (Some data, s1\<lparr>currentDocket := Some data\<rparr>)
         | GetNotOk \<Rightarrow> (None, s1)
         | GetThrew \<Rightarrow> (None, s1))"

definition updateDocketStatus :: "post_reply \<Rightarrow> string \<Rightarrow> string \<Rightarrow> bool \<Rightarrow> app \<Rightarrow> bool \<times> app" where
  "updateDocketStatus reply i st verified s =
     (let s1 = s\<lparr>requests := requests s @ [PostUpdate i st verified]\<rparr>
      in case reply of
           PostOk \<Rightarrow> (True, s1)
         | PostNotOk \<Rightarrow> (False, s1)
         | PostThrew \<Rightarrow> (False, s1))"

section \<open>\<^verbatim>\<open>analyzePOD\<close>\<close>

text \<open>How a block of statements ends, with the state it leaves.\<close>

datatype 'a outcome = Thrown 'a | Returned 'a

definition catch_with :: "('a \<Rightarrow> 'a) \<Rightarrow> 'a outcome \<Rightarrow> 'a outcome" where
  "catch_with handler r = (case r of Thrown s \<Rightarrow> Returned (handler s) | Returned s \<Rightarrow> Returned s)"

definition finally_do :: "('a \<Rightarrow> 'a) \<Rightarrow> 'a outcome \<Rightarrow> 'a outcome" where
  "finally_do f r = (case r of Thrown s \<Rightarrow> Thrown (f s) | Returned s \<Rightarrow> Returned (f s))"

definition state_of :: "'a outcome \<Rightarrow> 'a" where
  "state_of r = (case r of Thrown s \<Rightarrow> s | Returned s \<Rightarrow> s)"

definition analyzing :: string where
  "analyzing = ''Analyzing POD image against docket details...''"

definition unreadable :: string where
  "unreadable = ''I couldn't analyze the image properly.''"

definition apology :: string where
  "apology = ''Sorry, I encountered an error while analyzing the POD. Please try again.''"

text \<open>The \<^verbatim>\<open>try\<close> block from the point where the verifier has answered.\<close>

definition analyzePOD_try :: "gen_reply \<Rightarrow> string \<Rightarrow> string \<Rightarrow> app \<Rightarrow> app outcome" where
  "analyzePOD_try reply msgId base64Image s =
     (case reply of
        GenThrew \<Rightarrow> Thrown s
      | GenText t \<Rightarrow>
          (let responseText = or_else t unreadable;
               s1 = setMessages (updateMessageStatus msgId (Some Success) (Some responseText)) s
           in Returned (if includes_str (toLowerCase responseText) ''pod is good''
                        then s1\<lparr>pendingPodImage := Some base64Image\<rparr>
                        else s1)))"

definition analyzePOD_catch :: "string \<Rightarrow> app \<Rightarrow> app" where
  "analyzePOD_catch msgId s = setMessages (updateMessageStatus msgId (Some Error) (Some apology)) s"

definition analyzePOD_finally :: "app \<Rightarrow> app" where
  "analyzePOD_finally s = s\<lparr>isTyping := False\<rparr>"

text \<open>
  The run up to the \<^verbatim>\<open>await\<close>. The image is \<open>None\<close> when the file reader ended with
  no result; then \<^verbatim>\<open>base64Image.split\<close> throws inside the \<^verbatim>\<open>try\<close> block and no request
  is made. Otherwise the request goes out and the run waits in \<open>inflight\<close>.
\<close>

definition analyzePOD_begin :: "string \<Rightarrow> string option \<Rightarrow> docket \<Rightarrow> app \<Rightarrow> app" where
  "analyzePOD_begin msgId base64Image docket s =
     (let s1 = addMessage msgId Assistant analyzing None (Some Loading) (s\<lparr>isTyping := True\<rparr>)
      in case base64Image of
           None \<Rightarrow> state_of (finally_do analyzePOD_finally (catch_with (analyzePOD_catch msgId) (Thrown s1)))
         | Some img \<Rightarrow>
             s1\<lparr>requests := requests s1 @ [VerifyPOD docket (split_comma_1 img)],
                inflight := inflight s1 @ [(msgId, img, docket)]\<rparr>)"

text \<open>The rest of the run, once the verifier has answered with \<open>reply\<close>.\<close>

definition analyzePOD_settle :: "gen_reply \<Rightarrow> string \<Rightarrow> string \<Rightarrow> app \<Rightarrow> app outcome" where
  "analyzePOD_settle reply msgId base64Image s =
     finally_do analyzePOD_finally
       (catch_with (analyzePOD_catch msgId) (analyzePOD_try reply msgId base64Image s))"

text \<open>A whole run on an image that was read, with nothing happening in between.\<close>

definition analyzePOD :: "gen_reply \<Rightarrow> string \<Rightarrow> string \<Rightarrow> docket \<Rightarrow> app \<Rightarrow> app outcome" where
  "analyzePOD reply msgId base64Image docket s =
     (let s1 = analyzePOD_begin msgId (Some base64Image) docket s
      in analyzePOD_settle reply msgId base64Image (s1\<lparr>inflight := butlast (inflight s1)\<rparr>))"

section \<open>\<^verbatim>\<open>handleSend\<close>\<close>

definition updated_ok :: "string \<Rightarrow> string" where
  "updated_ok i = ''Successfully updated docket **'' @ i @ ''** status to **Delivered**. POD has been verified and recorded.''"

definition update_failed :: string where
  "update_failed = ''Failed to update the docket. Please try again.''"

definition need_docket :: string where
  "need_docket = ''Please provide a docket number first.''"

definition need_pod :: string where
  "need_pod = ''I haven't verified a POD for this docket yet. Please upload the POD image first.''"

definition found_docket :: "docket \<Rightarrow> string" where
  "found_docket d = ''Found Docket: **'' @ id_d d @ ''**'' @ [CHR 0x0A, CHR 0x0A]
     @ ''**Customer:** '' @ customer_name d @ [CHR 0x0A]
     @ ''**Address:** '' @ delivery_address d @ [CHR 0x0A]
     @ ''**Status:** '' @ status_d d @ [CHR 0x0A, CHR 0x0A]
     @ ''Please upload the POD image for verification.''"

definition not_found :: "string \<Rightarrow> string" where
  "not_found docketId = ''Sorry, I couldn't find docket **'' @ docketId @ ''**. Try DKT-1001, DKT-1002, or DKT-1003.''"

definition not_sure :: string where
  "not_sure = ''I'm not sure how to help with that.''"

definition no_connection :: string where
  "no_connection = ''I'm having trouble connecting right now.''"

text \<open>The branch under the comment "Logic for update". \<open>s\<close> is the state the handler was
  called in, whose docket and image the closure reads; \<open>s1\<close> is the state so far.\<close>

definition update_branch :: "post_reply \<Rightarrow> string \<Rightarrow> app \<Rightarrow> app \<Rightarrow> app" where
  "update_branch pr newId s s1 =
     (case currentDocket s of
        Some d \<Rightarrow>
          if truthy (pendingPodImage s)
          then (case updateDocketStatus pr (id_d d) ''Delivered'' True (s1\<lparr>isTyping := True\<rparr>) of
                  (success, s2) \<Rightarrow>
                    (if success
                     then (addMessage newId Assistant (updated_ok (id_d d)) None None s2)\<lparr>pendingPodImage := None\<rparr>
                     else addMessage newId Assistant update_failed None None s2)\<lparr>isTyping := False\<rparr>)
          else addMessage newId Assistant need_pod None None s1
      | None \<Rightarrow> addMessage newId Assistant need_docket None None s1)"

text \<open>The branch under the comment "Logic for Docket Search", for the match in upper case.\<close>

definition search_branch :: "get_reply \<Rightarrow> string \<Rightarrow> string \<Rightarrow> app \<Rightarrow> app" where
  "search_branch gr newId docketId s1 =
     (case fetchDocket gr docketId (s1\<lparr>isTyping := True\<rparr>) of
        (found, s2) \<Rightarrow>
          (case found of
             Some d \<Rightarrow> addMessage newId Assistant (found_docket d) None None s2
           | None \<Rightarrow> addMessage newId Assistant (not_found docketId) None None s2)\<lparr>isTyping := False\<rparr>)"

text \<open>The branch under the comment "Default AI response for other queries".\<close>

definition default_branch :: "gen_reply \<Rightarrow> string \<Rightarrow> string \<Rightarrow> app \<Rightarrow> app" where
  "default_branch ar newId userMsg s1 =
     (let s2 = s1\<lparr>isTyping := True, requests := requests s1 @ [Ask userMsg]\<rparr>
      in (case ar of
            GenText t \<Rightarrow> addMessage newId Assistant (or_else t not_sure) None None s2
          | GenThrew \<Rightarrow> addMessage newId Assistant no_connection None None s2)\<lparr>isTyping := False\<rparr>)"

text \<open>
  \<^verbatim>\<open>handleSend\<close>. \<open>pr\<close>, \<open>gr\<close> and \<open>ar\<close> are what the docket store's update, the docket
  store's lookup and the assistant would answer (the handler asks at most one of them);
  \<open>id1\<close> and \<open>id2\<close> are the identifiers of the messages it adds. The handler is taken
  as one step: nothing else happens while it waits for the answer.
\<close>

definition handleSend :: "post_reply \<Rightarrow> get_reply \<Rightarrow> gen_reply \<Rightarrow> string \<Rightarrow> string \<Rightarrow> app \<Rightarrow> app" where
  "handleSend pr gr ar id1 id2 s =
     (if trim (input s) = [] then s
      else
        let userMsg = trim (input s);
            s1 = addMessage id1 User userMsg None None (s\<lparr>input := []\<rparr>)
        in if includes_str (toLowerCase userMsg) ''update''
              \<or> includes_str (toLowerCase userMsg) ''please update''
           then update_branch pr id2 s s1
           else (case match_DKT userMsg of
                   Some m \<Rightarrow> search_branch gr id2 (toUpperCase m) s1
                 | None \<Rightarrow> default_branch ar id2 userMsg s1))"

section \<open>\<^verbatim>\<open>handleFileUpload\<close> and the button that clears the docket\<close>

definition search_first :: string where
  "search_first = ''Please search for a docket (e.g., DKT-1001) before uploading the POD.''"

text \<open>
  \<open>file\<close> is \<open>None\<close> when no file was chosen, and otherwise holds what the file reader
  ends with (\<open>None\<close> for a failed read). Reading the file is taken as part of the event.
\<close>

definition handleFileUpload :: "string option option \<Rightarrow> string \<Rightarrow> string \<Rightarrow> app \<Rightarrow> app" where
  "handleFileUpload file id1 id2 s =
     (case file of
        None \<Rightarrow> s
      | Some base64 \<Rightarrow>
          (case currentDocket s of
             None \<Rightarrow> addMessage id1 Assistant search_first None None s
           | Some d \<Rightarrow>
               analyzePOD_begin id2 base64 d
                 (addMessage id1 User ''Uploaded POD image'' base64 None s)))"

text \<open>The button next to the active docket: \<^verbatim>\<open>onClick={() => setCurrentDocket(null)}\<close>.\<close>

definition clearDocket :: "app \<Rightarrow> app" where
  "clearDocket s = s\<lparr>currentDocket := None\<rparr>"

section \<open>Events of a session\<close>

datatype event =
    Type string
  | Send post_reply get_reply gen_reply string string
  | Upload "string option option" string string
  | VerifierReplies nat gen_reply
  | Reset

text \<open>\<open>VerifierReplies k reply\<close> resumes the \<open>k\<close>-th waiting run; the runs may be
  answered in any order. The reset button is rendered only while a docket is active. The
  buttons that propose a docket number or the confirmation call \<^verbatim>\<open>setInput\<close> and then
  \<^verbatim>\<open>handleSend\<close>, which reads the text of the last render: they act as \<open>Type\<close> when
  that text is blank and as \<open>Send\<close> otherwise.\<close>

fun step :: "app \<Rightarrow> event \<Rightarrow> app" where
  "step s (Type text) = s\<lparr>input := text\<rparr>"
| "step s (Send pr gr ar id1 id2) = handleSend pr gr ar id1 id2 s"
| "step s (Upload file id1 id2) = handleFileUpload file id1 id2 s"
| "step s (VerifierReplies k reply) =
     (if k < length (inflight s)
      then (case inflight s ! k of
              (msgId, img, d) \<Rightarrow>
                state_of (analyzePOD_settle reply msgId img
                  (s\<lparr>inflight := take k (inflight s) @ drop (Suc k) (inflight s)\<rparr>)))
      else s)"
| "step s Reset = (if currentDocket s = None then s else clearDocket s)"

definition run :: "event list \<Rightarrow> app" where
  "run es = foldl step initial es"

section \<open>Intent and session state, as the branches of \<^verbatim>\<open>handleSend\<close> draw them\<close>

datatype intent = RequestCommit | DocketLookup string | Freeform

text \<open>The conditions of \<^verbatim>\<open>handleSend\<close> on the trimmed text, in the order it tests them.\<close>

definition classify :: "string \<Rightarrow> intent" where
  "classify userMsg =
     (if includes_str (toLowerCase userMsg) ''update''
         \<or> includes_str (toLowerCase userMsg) ''please update''
      then RequestCommit
      else (case match_DKT userMsg of
              Some m \<Rightarrow> DocketLookup (toUpperCase m)
            | None \<Rightarrow> Freeform))"

datatype phase = NoDocket | DocketActive | EvidencePending

text \<open>The three cases that the update branch tells apart.\<close>

definition phase :: "app \<Rightarrow> phase" where
  "phase s =
     (case currentDocket s of
        None \<Rightarrow> NoDocket
      | Some d \<Rightarrow> if truthy (pendingPodImage s) then EvidencePending else DocketActive)"

text \<open>An image is pending, or a run of \<^verbatim>\<open>analyzePOD\<close> waits, only while a docket
  is active.\<close>

definition scoped :: "app \<Rightarrow> bool" where
  "scoped s = (case currentDocket s of None \<Rightarrow> pendingPodImage s = None \<and> inflight s = [] | Some d \<Rightarrow> True)"


section \<open>The server's docket table\<close>

text \<open>The table \<^verbatim>\<open>dockets\<close> as its list of rows; \<open>now\<close> stands for
  \<^verbatim>\<open>CURRENT_TIMESTAMP\<close>.\<close>

definition seed_rows :: "(string \<times> string \<times> string) list" where
  "seed_rows =
     [(''DKT-1001'', ''John Doe'', ''123 Maple St, Springfield''),
      (''DKT-1002'', ''Jane Smith'', ''456 Oak Ave, Metropolis''),
      (''DKT-1003'', ''Acme Corp'', ''789 Industrial Way, Gotham'')]"

definition insert_row :: "string \<Rightarrow> string \<times> string \<times> string \<Rightarrow> docket" where
  "insert_row now r =
     (case r of (i, name, address) \<Rightarrow>
        \<lparr>id_d = i, customer_name = name, delivery_address = address,
         status_d = ''Pending'', pod_verified = 0, updated_at = now\<rparr>)"

definition seed :: "string \<Rightarrow> docket list \<Rightarrow> docket list" where
  "seed now db = (if length db = 0 then db @ map (insert_row now) seed_rows else db)"

definition api_get :: "docket list \<Rightarrow> string \<Rightarrow> get_reply" where
  "api_get db i = (case find (\<lambda>d. id_d d = i) db of Some d \<Rightarrow> GetOk d | None \<Rightarrow> GetNotOk)"

definition api_update :: "string \<Rightarrow> docket list \<Rightarrow> string \<Rightarrow> string \<Rightarrow> bool \<Rightarrow> post_reply \<times> docket list" where
  "api_update now db i st verified =
     (let changes = length (filter (\<lambda>d. id_d d = i) db);
          db' = map (\<lambda>d. if id_d d = i
                          then d\<lparr>status_d := st, pod_verified := (if verified then 1 else 0), updated_at := now\<rparr>
                          else d) db
      in (if changes > 0 then PostOk else PostNotOk, db'))"

section \<open>A sample session\<close>

text \<open>Two of the dockets the server seeds, an image as the file reader delivers it, a
  verdict that accepts it, and the session in which the first docket is looked up and
  the image is uploaded and accepted.\<close>

definition docket_1001 :: docket where
  "docket_1001 = \<lparr>id_d = ''DKT-1001'', customer_name = ''John Doe'',
     delivery_address = ''123 Maple St, Springfield'', status_d = ''Pending'',
     pod_verified = 0, updated_at = ''2026-01-01 00:00:00''\<rparr>"

definition docket_1002 :: docket where
  "docket_1002 = \<lparr>id_d = ''DKT-1002'', customer_name = ''Jane Smith'',
     delivery_address = ''456 Oak Ave, Metropolis'', status_d = ''Pending'',
     pod_verified = 0, updated_at = ''2026-01-01 00:00:00''\<rparr>"

definition pod_image :: string where
  "pod_image = ''data:image/jpeg;base64,/9j/4AAQSkZJRg==''"

definition good_verdict :: string where
  "good_verdict = ''Great news! This POD is good. Signature found, address matches.''"

definition evidence_session :: "event list" where
  "evidence_session =
     [Type ''dkt-1001'',
      Send PostThrew (GetOk docket_1001) GenThrew ''m1'' ''m2'',
      Upload (Some (Some pod_image)) ''m3'' ''m4'',
      VerifierReplies 0 (GenText (Some good_verdict))]"

definition evidence_state :: app where
  "evidence_state =
     \<lparr>messages =
        [\<lparr>id_m = ''1'', role = Assistant, content = greeting, image_m = None, status_m = None\<rparr>,
         \<lparr>id_m = ''m1'', role = User, content = ''dkt-1001'', image_m = None, status_m = None\<rparr>,
         \<lparr>id_m = ''m2'', role = Assistant, content = found_docket docket_1001, image_m = None, status_m = None\<rparr>,
         \<lparr>id_m = ''m3'', role = User, content = ''Uploaded POD image'', image_m = Some pod_image, status_m = None\<rparr>,
         \<lparr>id_m = ''m4'', role = Assistant, content = good_verdict, image_m = None, status_m = Some Success\<rparr>],
      input = [], isTyping = False, currentDocket = Some docket_1001,
      pendingPodImage = Some pod_image, inflight = [],
      requests = [GetDocket ''DKT-1001'', VerifyPOD docket_1001 (Some ''/9j/4AAQSkZJRg=='')]\<rparr>"


definition waiting_session :: "event list" where
  "waiting_session =
     [Type ''dkt-1001'',
      Send PostThrew (GetOk docket_1001) GenThrew ''m1'' ''m2'',
      Upload (Some (Some pod_image)) ''m3'' ''m4'',
      Type ''thanks'']"

definition waiting_state :: app where
  "waiting_state =
     \<lparr>messages =
        [\<lparr>id_m = ''1'', role = Assistant, content = greeting, image_m = None, status_m = None\<rparr>,
         \<lparr>id_m = ''m1'', role = User, content = ''dkt-1001'', image_m = None, status_m = None\<rparr>,
         \<lparr>id_m = ''m2'', role = Assistant, content = found_docket docket_1001, image_m = None, status_m = None\<rparr>,
         \<lparr>id_m = ''m3'', role = User, content = ''Uploaded POD image'', image_m = Some pod_image, status_m = None\<rparr>,
         \<lparr>id_m = ''m4'', role = Assistant, content = analyzing, image_m = None, status_m = Some Loading\<rparr>],
      input = ''thanks'', isTyping = True, currentDocket = Some docket_1001,
      pendingPodImage = None, inflight = [(''m4'', pod_image, docket_1001)],
      requests = [GetDocket ''DKT-1001'', VerifyPOD docket_1001 (Some ''/9j/4AAQSkZJRg=='')]\<rparr>"

section \<open>Strings\<close>

lemma trim_Nil_iff: "trim s = [] \<longleftrightarrow> (\<forall>c\<in>set s. is_space c)"
proof
  assume "trim s = []"
  then have "dropWhile is_space (rev (dropWhile is_space s)) = []" by (simp add: trim_def)
  then have "\<forall>c\<in>set (dropWhile is_space s). is_space c" by (simp add: dropWhile_eq_Nil_conv)
  then have "dropWhile is_space s = []"
    by (metis hd_dropWhile list.set_sel(1))
  then show "\<forall>c\<in>set s. is_space c" by (simp add: dropWhile_eq_Nil_conv)
next
  assume "\<forall>c\<in>set s. is_space c"
  then show "trim s = []" by (auto simp: trim_def dest: set_dropWhileD)
qed

lemma startsWith_iff: "startsWith s p \<longleftrightarrow> (\<exists>b. s = p @ b)"
  by (induction s p rule: startsWith.induct) auto

lemma includes_str_iff: "includes_str s p \<longleftrightarrow> (\<exists>a b. s = a @ p @ b)"
proof (induction s)
  case Nil
  then show ?case by auto
next
  case (Cons c cs)
  show ?case
  proof
    assume "includes_str (c # cs) p"
    then consider "startsWith (c # cs) p" | "includes_str cs p" by auto
    then show "\<exists>a b. c # cs = a @ p @ b"
    proof cases
      case 1
      then obtain b where "c # cs = p @ b" by (auto simp: startsWith_iff)
      then have "c # cs = [] @ p @ b" by simp
      then show ?thesis by blast
    next
      case 2
      then obtain a b where "cs = a @ p @ b" using Cons.IH by blast
      then have "c # cs = (c # a) @ p @ b" by simp
      then show ?thesis by blast
    qed
  next
    assume "\<exists>a b. c # cs = a @ p @ b"
    then obtain a b where ab: "c # cs = a @ p @ b" by blast
    show "includes_str (c # cs) p"
    proof (cases a)
      case Nil
      then have "startsWith (c # cs) p" using ab by (auto simp: startsWith_iff)
      then show ?thesis by simp
    next
      case (Cons x xs)
      then have "cs = xs @ p @ b" using ab by simp
      then have "includes_str cs p" using Cons.IH by blast
      then show ?thesis by simp
    qed
  qed
qed

lemma includes_str_mid: "includes_str (a @ p @ b) p"
  unfolding includes_str_iff by blast

lemma includes_str_append_left: "includes_str b p \<Longrightarrow> includes_str (a @ b) p"
proof -
  assume "includes_str b p"
  then obtain x y where "b = x @ p @ y" by (auto simp: includes_str_iff)
  then have "a @ b = (a @ x) @ p @ y" by simp
  then show ?thesis unfolding includes_str_iff by blast
qed

lemma lower_char_space: "is_space c \<Longrightarrow> lower_char c = c"
proof -
  assume "is_space c"
  then have "c \<in> set [CHR 0x09, CHR 0x0A, CHR 0x0B, CHR 0x0C, CHR 0x0D, CHR 0x20, CHR 0xA0]"
    by (simp only: is_space_def)
  moreover have "list_all (\<lambda>x. lower_char x = x) [CHR 0x09, CHR 0x0A, CHR 0x0B, CHR 0x0C, CHR 0x0D, CHR 0x20, CHR 0xA0]"
    by code_simp
  ultimately show ?thesis unfolding list_all_iff by blast
qed

lemma dropWhile_keeps_middle:
  assumes "q \<noteq> []" and "\<not> P (hd q)"
  shows "dropWhile P (a @ q @ b) = dropWhile P a @ q @ b"
proof -
  obtain y ys where q: "q = y # ys" using assms(1) by (cases q) auto
  then have "\<not> P y" using assms(2) by simp
  then show ?thesis unfolding q by (simp add: dropWhile_append3)
qed

lemma trim_keeps_middle:
  assumes "q \<noteq> []" and "\<not> is_space (hd q)" and "\<not> is_space (last q)"
  shows "\<exists>x y. trim (a @ q @ b) = x @ q @ y"
proof -
  have front: "dropWhile is_space (a @ q @ b) = dropWhile is_space a @ q @ b"
    using assms(1,2) by (rule dropWhile_keeps_middle)
  have "rev q \<noteq> []" and "\<not> is_space (hd (rev q))"
    using assms(1,3) by (simp_all add: hd_rev)
  then have "dropWhile is_space (rev b @ rev q @ rev (dropWhile is_space a))
           = dropWhile is_space (rev b) @ rev q @ rev (dropWhile is_space a)"
    by (rule dropWhile_keeps_middle)
  then have "trim (a @ q @ b) = dropWhile is_space a @ q @ rev (dropWhile is_space (rev b))"
    by (simp add: trim_def front)
  then show ?thesis by blast
qed

lemma includes_trim:
  assumes "includes_str (toLowerCase s) p" and "p \<noteq> []"
    and "\<not> is_space (hd p)" and "\<not> is_space (last p)"
  shows "includes_str (toLowerCase (trim s)) p"
proof -
  obtain a b where "map lower_char s = a @ p @ b"
    using assms(1) by (auto simp: includes_str_iff toLowerCase_def)
  then have "\<exists>us vs. s = us @ vs \<and> a = map lower_char us \<and> p @ b = map lower_char vs"
    by (simp add: map_eq_append_conv)
  then obtain a' vs where s1: "s = a' @ vs" and vs: "map lower_char vs = p @ b"
    by metis
  from vs have "\<exists>q b'. vs = q @ b' \<and> p = map lower_char q \<and> b = map lower_char b'"
    by (simp add: map_eq_append_conv)
  then obtain q b' where s2: "vs = q @ b'" and q: "map lower_char q = p"
    by metis
  have s: "s = a' @ q @ b'" using s1 s2 by simp
  have qne: "q \<noteq> []" using q assms(2) by auto
  have hq: "lower_char (hd q) = hd p" and lq: "lower_char (last q) = last p"
    using q qne by (auto simp: hd_map last_map)
  have "\<not> is_space (hd q)"
  proof
    assume sp: "is_space (hd q)"
    then have "lower_char (hd q) = hd q" by (rule lower_char_space)
    then show False using hq sp assms(3) by simp
  qed
  moreover have "\<not> is_space (last q)"
  proof
    assume sp: "is_space (last q)"
    then have "lower_char (last q) = last q" by (rule lower_char_space)
    then show False using lq sp assms(4) by simp
  qed
  ultimately have "\<exists>x y. trim (a' @ q @ b') = x @ q @ y"
    using qne by (simp add: trim_keeps_middle)
  then obtain x y where "trim s = x @ q @ y"
    using s by auto
  then have "toLowerCase (trim s) = map lower_char x @ p @ map lower_char y"
    using q by (simp add: toLowerCase_def)
  then show ?thesis by (simp add: includes_str_mid)
qed

lemma update_cue_trim:
  "includes_str (toLowerCase s) ''update'' \<Longrightarrow> includes_str (toLowerCase (trim s)) ''update''"
  by (rule includes_trim) (simp_all add: is_space_def)

lemma unreadable_not_good: "\<not> includes_str (toLowerCase unreadable) ''pod is good''"
  by code_simp

lemma not_found_lists_seeds: "list_all (\<lambda>r. includes_str (not_found i) (fst r)) seed_rows"
proof -
  let ?tail = "''**. Try DKT-1001, DKT-1002, or DKT-1003.''"
  have "includes_str ?tail ''DKT-1001''" "includes_str ?tail ''DKT-1002''" "includes_str ?tail ''DKT-1003''"
    by code_simp+
  then have "includes_str ((''Sorry, I couldn't find docket **'' @ i) @ ?tail) ''DKT-1001''"
    and "includes_str ((''Sorry, I couldn't find docket **'' @ i) @ ?tail) ''DKT-1002''"
    and "includes_str ((''Sorry, I couldn't find docket **'' @ i) @ ?tail) ''DKT-1003''"
    by (simp_all only: includes_str_append_left)
  then show ?thesis by (simp add: not_found_def seed_rows_def)
qed

section \<open>The branches of \<^verbatim>\<open>handleSend\<close>\<close>

lemma classify_Nil: "classify [] = Freeform"
  by (simp add: classify_def toLowerCase_def)

lemma handleSend_dispatch:
  "trim (input s) \<noteq> [] \<Longrightarrow>
   handleSend pr gr ar id1 id2 s =
     (case classify (trim (input s)) of
        RequestCommit \<Rightarrow>
          update_branch pr id2 s (addMessage id1 User (trim (input s)) None None (s\<lparr>input := []\<rparr>))
      | DocketLookup i \<Rightarrow>
          search_branch gr id2 i (addMessage id1 User (trim (input s)) None None (s\<lparr>input := []\<rparr>))
      | Freeform \<Rightarrow>
          default_branch ar id2 (trim (input s)) (addMessage id1 User (trim (input s)) None None (s\<lparr>input := []\<rparr>)))"
  by (simp add: handleSend_def classify_def Let_def split: option.splits)

lemma handleSend_commit:
  assumes "classify (trim (input s)) = RequestCommit"
  shows "handleSend pr gr ar id1 id2 s =
          update_branch pr id2 s (addMessage id1 User (trim (input s)) None None (s\<lparr>input := []\<rparr>))"
proof -
  have "trim (input s) \<noteq> []" using assms classify_Nil by auto
  then show ?thesis using assms by (simp add: handleSend_dispatch)
qed

lemma handleSend_lookup:
  assumes "classify (trim (input s)) = DocketLookup i"
  shows "handleSend pr gr ar id1 id2 s =
          search_branch gr id2 i (addMessage id1 User (trim (input s)) None None (s\<lparr>input := []\<rparr>))"
proof -
  have "trim (input s) \<noteq> []" using assms classify_Nil by auto
  then show ?thesis using assms by (simp add: handleSend_dispatch)
qed

lemma update_branch_requests:
  "requests (update_branch pr newId s s1) = requests s1
   \<or> (\<exists>i. requests (update_branch pr newId s s1) = requests s1 @ [PostUpdate i ''Delivered'' True])"
  by (cases pr) (auto simp: update_branch_def updateDocketStatus_def addMessage_def split: option.splits)

lemma update_branch_docket:
  "currentDocket (update_branch pr newId s s1) = currentDocket s1"
  by (cases pr) (auto simp: update_branch_def updateDocketStatus_def addMessage_def split: option.splits)

section \<open>The sample session and the server\<close>

lemma run_snoc: "run (es @ [e]) = step (run es) e"
  by (simp add: run_def)

lemma run_evidence_session: "run evidence_session = evidence_state"
  by code_simp

lemma seed_lookup_1001: "api_get (seed ''2026-01-01 00:00:00'' []) ''DKT-1001'' = GetOk docket_1001"
  by (simp add: api_get_def seed_def seed_rows_def insert_row_def docket_1001_def)

lemma seed_lookup_1002: "api_get (seed ''2026-01-01 00:00:00'' []) ''DKT-1002'' = GetOk docket_1002"
  by (simp add: api_get_def seed_def seed_rows_def insert_row_def docket_1002_def)

lemma upload_then_reply:
  assumes "currentDocket s = Some d" and "inflight s = []"
  shows "step (step s (Upload (Some (Some img)) id1 id2)) (VerifierReplies 0 reply)
       = state_of (analyzePOD reply id2 img d (addMessage id1 User ''Uploaded POD image'' (Some img) None s))"
  using assms
  by (simp add: handleFileUpload_def analyzePOD_def analyzePOD_begin_def addMessage_def Let_def)

text \<open>The server's update on a docket it has: the answer is ok, and the row then carries
  the new status and the verified flag.\<close>

lemma api_update_found:
  assumes "find (\<lambda>d. id_d d = i) db = Some d"
  shows "fst (api_update now db i st verified) = PostOk
       \<and> find (\<lambda>d. id_d d = i) (snd (api_update now db i st verified))
           = Some (d\<lparr>status_d := st, pod_verified := (if verified then 1 else 0), updated_at := now\<rparr>)"
proof -
  have "d \<in> set db \<and> id_d d = i"
    using assms by (auto simp: find_Some_iff)
  then have "filter (\<lambda>d. id_d d = i) db \<noteq> []"
    by (auto simp: filter_empty_conv)
  moreover have "find (\<lambda>d. id_d d = i)
       (map (\<lambda>d. if id_d d = i then d\<lparr>status_d := st, pod_verified := (if verified then 1 else 0), updated_at := now\<rparr> else d) db)
     = Some (d\<lparr>status_d := st, pod_verified := (if verified then 1 else 0), updated_at := now\<rparr>)"
    using assms by (induction db) (auto split: if_splits)
  ultimately show ?thesis by (simp add: api_update_def Let_def)
qed

lemma clearDocket_pending: "pendingPodImage (clearDocket s) = pendingPodImage s"
  by (simp add: clearDocket_def)

lemma search_branch_pending: "pendingPodImage (search_branch gr newId docketId s1) = pendingPodImage s1"
  by (cases gr) (simp_all add: search_branch_def fetchDocket_def addMessage_def)

section \<open>Evidence and the active docket\<close>

text \<open>Every handler but the reset button keeps pending images and waiting runs within
  an active docket, so a session without a reset never leaves that.\<close>

lemma update_branch_scoped:
  "currentDocket s1 = currentDocket s \<Longrightarrow> pendingPodImage s1 = pendingPodImage s \<Longrightarrow>
   inflight s1 = inflight s \<Longrightarrow> scoped s \<Longrightarrow> scoped (update_branch pr newId s s1)"
  by (cases pr) (auto simp: scoped_def update_branch_def updateDocketStatus_def addMessage_def split: option.splits)

lemma search_branch_scoped: "scoped s1 \<Longrightarrow> scoped (search_branch gr newId i s1)"
  by (cases gr) (auto simp: scoped_def search_branch_def fetchDocket_def addMessage_def split: option.splits)

lemma default_branch_scoped: "scoped s1 \<Longrightarrow> scoped (default_branch ar newId u s1)"
  by (cases ar) (auto simp: scoped_def default_branch_def addMessage_def split: option.splits)

lemma handleSend_scoped: "scoped s \<Longrightarrow> scoped (handleSend pr gr ar id1 id2 s)"
proof -
  assume sc: "scoped s"
  let ?s1 = "addMessage id1 User (trim (input s)) None None (s\<lparr>input := []\<rparr>)"
  have s1: "scoped ?s1" using sc by (auto simp: scoped_def addMessage_def split: option.splits)
  have "scoped (update_branch pr id2 s ?s1)"
    using sc by (intro update_branch_scoped) (simp_all add: addMessage_def)
  then show ?thesis
    using sc s1 search_branch_scoped default_branch_scoped
    by (simp add: handleSend_def Let_def split: option.splits)
qed

lemma handleFileUpload_scoped: "scoped s \<Longrightarrow> scoped (handleFileUpload file id1 id2 s)"
  by (auto simp: scoped_def handleFileUpload_def analyzePOD_begin_def analyzePOD_catch_def
      analyzePOD_finally_def catch_with_def finally_do_def state_of_def setMessages_def
      addMessage_def Let_def split: option.splits)

lemma settle_docket:
  "currentDocket (state_of (analyzePOD_settle reply msgId img s)) = currentDocket s"
  by (cases reply) (auto simp: analyzePOD_settle_def analyzePOD_try_def analyzePOD_catch_def
      analyzePOD_finally_def catch_with_def finally_do_def state_of_def setMessages_def Let_def)

lemma step_scoped:
  assumes "scoped s" and "e \<noteq> Reset"
  shows "scoped (step s e)"
proof (cases e)
  case (Type x)
  then show ?thesis using assms(1) by (auto simp: scoped_def split: option.splits)
next
  case (Send pr gr ar id1 id2)
  then show ?thesis using assms(1) by (simp add: handleSend_scoped)
next
  case (Upload f id1 id2)
  then show ?thesis using assms(1) by (simp add: handleFileUpload_scoped)
next
  case (VerifierReplies k reply)
  show ?thesis
  proof (cases "k < length (inflight s)")
    case True
    then have "inflight s \<noteq> []" by auto
    then obtain d where d: "currentDocket s = Some d"
      using assms(1) by (auto simp: scoped_def split: option.splits)
    obtain msgId img d0 where p: "inflight s ! k = (msgId, img, d0)" by (cases "inflight s ! k")
    have "currentDocket (step s e) = Some d"
      using VerifierReplies True p d by (simp add: settle_docket)
    then show ?thesis by (simp add: scoped_def)
  next
    case False
    then show ?thesis using VerifierReplies assms(1) by simp
  qed
next
  case Reset
  then show ?thesis using assms(2) by simp
qed

lemma run_scoped: "Reset \<notin> set es \<Longrightarrow> scoped (run es)"
proof (induction es rule: rev_induct)
  case Nil
  then show ?case by (simp add: run_def scoped_def initial_def)
next
  case (snoc e es)
  then have "scoped (run es)" and "e \<noteq> Reset" by auto
  then have "scoped (step (run es) e)" by (rule step_scoped)
  then show ?case by (simp add: run_def)
qed

text \<open>
  Claim C1: in every state that a session can reach, no image is pending while no docket
  is active, and the reset button discards the pending image. The code does not do this:
  the button only empties \<open>currentDocket\<close>. In the sample session followed by a reset, no
  docket is active and the accepted image is still pending (without a reset this cannot
  happen, by \<open>run_scoped\<close>).
\<close>

theorem reset_keeps_evidence:
  "currentDocket (run (evidence_session @ [Reset])) = None
   \<and> pendingPodImage (run (evidence_session @ [Reset])) = Some pod_image
   \<and> pendingPodImage (clearDocket evidence_state) = Some pod_image"
  by (simp add: run_snoc run_evidence_session clearDocket_def evidence_state_def)

text \<open>
  Claim C2: a lookup that succeeds and changes the active docket clears the pending
  image. The code does not do this: \<^verbatim>\<open>fetchDocket\<close> only sets \<open>currentDocket\<close>.
  After the sample session, looking up DKT-1002 makes it the active docket while the image
  accepted for DKT-1001 stays pending, and "Please update" then posts the update for
  DKT-1002.
\<close>

theorem lookup_keeps_evidence:
  "currentDocket (run (evidence_session @ [Type ''DKT-1002'', Send PostThrew (GetOk docket_1002) GenThrew ''m5'' ''m6''])) = Some docket_1002
   \<and> docket_1002 \<noteq> docket_1001
   \<and> pendingPodImage (run (evidence_session @ [Type ''DKT-1002'', Send PostThrew (GetOk docket_1002) GenThrew ''m5'' ''m6''])) = Some pod_image
   \<and> requests (run (evidence_session @ [Type ''DKT-1002'', Send PostThrew (GetOk docket_1002) GenThrew ''m5'' ''m6'',
                                      Type ''Please update'', Send PostOk GetThrew GenThrew ''m7'' ''m8'']))
       = [GetDocket ''DKT-1001'', VerifyPOD docket_1001 (Some ''/9j/4AAQSkZJRg==''), GetDocket ''DKT-1002'',
          PostUpdate ''DKT-1002'' ''Delivered'' True]"
  by code_simp

section \<open>Committing\<close>

text \<open>
  Claim C3: with an active docket \<open>d\<close> and a pending image, a commit request whose
  update the docket store accepts posts the update (\<open>id_d d\<close>, Delivered, verified),
  adds a success message that names \<open>id_d d\<close>, clears the pending image and keeps \<open>d\<close>
  as the active docket: the session is in \<open>DocketActive\<close>.
\<close>

theorem commit_success:
  assumes "classify (trim (input s)) = RequestCommit"
    and "currentDocket s = Some d"
    and "truthy (pendingPodImage s)"
  shows "requests (handleSend PostOk gr ar id1 id2 s) = requests s @ [PostUpdate (id_d d) ''Delivered'' True]
       \<and> messages (handleSend PostOk gr ar id1 id2 s) =
           messages s @ [\<lparr>id_m = id1, role = User, content = trim (input s), image_m = None, status_m = None\<rparr>,
                         \<lparr>id_m = id2, role = Assistant, content = updated_ok (id_d d), image_m = None, status_m = None\<rparr>]
       \<and> includes_str (updated_ok (id_d d)) (id_d d)
       \<and> pendingPodImage (handleSend PostOk gr ar id1 id2 s) = None
       \<and> currentDocket (handleSend PostOk gr ar id1 id2 s) = Some d
       \<and> phase (handleSend PostOk gr ar id1 id2 s) = DocketActive"
proof -
  have "includes_str (updated_ok (id_d d)) (id_d d)"
    unfolding updated_ok_def by (rule includes_str_mid)
  then show ?thesis
    using assms
    by (simp add: handleSend_commit update_branch_def updateDocketStatus_def addMessage_def
        phase_def truthy_def)
qed

theorem commit_success_witness:
  "requests (handleSend PostOk GetThrew GenThrew ''m5'' ''m6'' (evidence_state\<lparr>input := ''Please update''\<rparr>))
     = [GetDocket ''DKT-1001'', VerifyPOD docket_1001 (Some ''/9j/4AAQSkZJRg==''),
        PostUpdate ''DKT-1001'' ''Delivered'' True]
   \<and> content (last (messages (handleSend PostOk GetThrew GenThrew ''m5'' ''m6'' (evidence_state\<lparr>input := ''Please update''\<rparr>))))
     = ''Successfully updated docket **DKT-1001** status to **Delivered**. POD has been verified and recorded.''
   \<and> pendingPodImage (handleSend PostOk GetThrew GenThrew ''m5'' ''m6'' (evidence_state\<lparr>input := ''Please update''\<rparr>)) = None
   \<and> currentDocket (handleSend PostOk GetThrew GenThrew ''m5'' ''m6'' (evidence_state\<lparr>input := ''Please update''\<rparr>)) = Some docket_1001
   \<and> phase (handleSend PostOk GetThrew GenThrew ''m5'' ''m6'' (evidence_state\<lparr>input := ''Please update''\<rparr>)) = DocketActive"
proof -
  let ?s = "evidence_state\<lparr>input := ''Please update''\<rparr>"
  have "classify (trim ''Please update'') = RequestCommit" by code_simp
  then have h1: "classify (trim (input ?s)) = RequestCommit" by simp
  have h2: "currentDocket ?s = Some docket_1001" by (simp add: evidence_state_def)
  have h3: "truthy (pendingPodImage ?s)" by (simp add: evidence_state_def truthy_def pod_image_def)
  show ?thesis
    using commit_success [OF h1 h2 h3, of GetThrew GenThrew "''m5''" "''m6''"]
    by (simp add: evidence_state_def docket_1001_def updated_ok_def)
qed

text \<open>
  Claim C7: with an active docket and a pending image, a commit request whose update
  fails, by a response that is not ok or by a \<^verbatim>\<open>fetch\<close> that throws, adds the message
  that asks to try again and leaves the active docket and the pending image as they were:
  the session stays in \<open>EvidencePending\<close>.
\<close>

theorem commit_failure:
  assumes "classify (trim (input s)) = RequestCommit"
    and "currentDocket s = Some d"
    and "truthy (pendingPodImage s)"
    and "pr = PostNotOk \<or> pr = PostThrew"
  shows "requests (handleSend pr gr ar id1 id2 s) = requests s @ [PostUpdate (id_d d) ''Delivered'' True]
       \<and> messages (handleSend pr gr ar id1 id2 s) =
           messages s @ [\<lparr>id_m = id1, role = User, content = trim (input s), image_m = None, status_m = None\<rparr>,
                         \<lparr>id_m = id2, role = Assistant, content = update_failed, image_m = None, status_m = None\<rparr>]
       \<and> currentDocket (handleSend pr gr ar id1 id2 s) = currentDocket s
       \<and> pendingPodImage (handleSend pr gr ar id1 id2 s) = pendingPodImage s
       \<and> phase (handleSend pr gr ar id1 id2 s) = EvidencePending"
  using assms
  by (auto simp: handleSend_commit update_branch_def updateDocketStatus_def addMessage_def phase_def)

theorem commit_failure_witness:
  "requests (handleSend PostNotOk GetThrew GenThrew ''m5'' ''m6'' (evidence_state\<lparr>input := ''Please update''\<rparr>))
     = [GetDocket ''DKT-1001'', VerifyPOD docket_1001 (Some ''/9j/4AAQSkZJRg==''),
        PostUpdate ''DKT-1001'' ''Delivered'' True]
   \<and> content (last (messages (handleSend PostNotOk GetThrew GenThrew ''m5'' ''m6'' (evidence_state\<lparr>input := ''Please update''\<rparr>))))
     = ''Failed to update the docket. Please try again.''
   \<and> pendingPodImage (handleSend PostNotOk GetThrew GenThrew ''m5'' ''m6'' (evidence_state\<lparr>input := ''Please update''\<rparr>)) = Some pod_image
   \<and> currentDocket (handleSend PostNotOk GetThrew GenThrew ''m5'' ''m6'' (evidence_state\<lparr>input := ''Please update''\<rparr>)) = Some docket_1001
   \<and> phase (handleSend PostNotOk GetThrew GenThrew ''m5'' ''m6'' (evidence_state\<lparr>input := ''Please update''\<rparr>)) = EvidencePending"
proof -
  let ?s = "evidence_state\<lparr>input := ''Please update''\<rparr>"
  have "classify (trim ''Please update'') = RequestCommit" by code_simp
  then have h1: "classify (trim (input ?s)) = RequestCommit" by simp
  have h2: "currentDocket ?s = Some docket_1001" by (simp add: evidence_state_def)
  have h3: "truthy (pendingPodImage ?s)" by (simp add: evidence_state_def truthy_def pod_image_def)
  have h4: "PostNotOk = PostNotOk \<or> PostNotOk = PostThrew" by simp
  show ?thesis
    using commit_failure [OF h1 h2 h3 h4, of GetThrew GenThrew "''m5''" "''m6''"]
    by (simp add: evidence_state_def docket_1001_def update_failed_def)
qed

section \<open>Classifying the text\<close>

text \<open>
  Claim C4: a text that contains "update" in any case and also a token that matches
  \<^verbatim>\<open>DKT-\d+\<close> in any case is a commit request and never a lookup: the handler takes
  the update branch, asks the docket store for no docket, and keeps the active docket.
\<close>

theorem update_precedes_lookup:
  assumes "includes_str (toLowerCase (input s)) ''update''"
    and "match_DKT (input s) \<noteq> None"
  shows "classify (trim (input s)) = RequestCommit
       \<and> (\<forall>i. classify (trim (input s)) \<noteq> DocketLookup i)
       \<and> handleSend pr gr ar id1 id2 s =
           update_branch pr id2 s (addMessage id1 User (trim (input s)) None None (s\<lparr>input := []\<rparr>))
       \<and> (\<forall>i. GetDocket i \<in> set (requests (handleSend pr gr ar id1 id2 s)) \<longrightarrow> GetDocket i \<in> set (requests s))
       \<and> currentDocket (handleSend pr gr ar id1 id2 s) = currentDocket s"
proof -
  have cue: "includes_str (toLowerCase (trim (input s))) ''update''"
    using assms(1) by (rule update_cue_trim)
  then have c: "classify (trim (input s)) = RequestCommit"
    by (simp add: classify_def)
  let ?s1 = "addMessage id1 User (trim (input s)) None None (s\<lparr>input := []\<rparr>)"
  have h: "handleSend pr gr ar id1 id2 s = update_branch pr id2 s ?s1"
    using c by (rule handleSend_commit)
  have r1: "requests ?s1 = requests s" and d1: "currentDocket ?s1 = currentDocket s"
    by (simp_all add: addMessage_def)
  have "\<forall>i. GetDocket i \<in> set (requests (update_branch pr id2 s ?s1)) \<longrightarrow> GetDocket i \<in> set (requests s)"
    using update_branch_requests [of pr id2 s ?s1] r1 by auto
  moreover have "currentDocket (update_branch pr id2 s ?s1) = currentDocket s"
    using update_branch_docket [of pr id2 s ?s1] d1 by simp
  ultimately show ?thesis using c h by simp
qed

theorem update_precedes_lookup_witness:
  "classify (trim ''  please UPDATE dkt-1002 '') = RequestCommit
   \<and> match_DKT ''  please UPDATE dkt-1002 '' = Some ''dkt-1002''
   \<and> requests (handleSend PostOk (GetOk docket_1002) GenThrew ''m5'' ''m6'' (evidence_state\<lparr>input := ''  please UPDATE dkt-1002 ''\<rparr>))
     = [GetDocket ''DKT-1001'', VerifyPOD docket_1001 (Some ''/9j/4AAQSkZJRg==''),
        PostUpdate ''DKT-1001'' ''Delivered'' True]
   \<and> currentDocket (handleSend PostOk (GetOk docket_1002) GenThrew ''m5'' ''m6'' (evidence_state\<lparr>input := ''  please UPDATE dkt-1002 ''\<rparr>))
     = Some docket_1001"
proof -
  let ?s = "evidence_state\<lparr>input := ''  please UPDATE dkt-1002 ''\<rparr>"
  have "includes_str (toLowerCase ''  please UPDATE dkt-1002 '') ''update''" by code_simp
  then have h1: "includes_str (toLowerCase (input ?s)) ''update''" by simp
  have m: "match_DKT ''  please UPDATE dkt-1002 '' = Some ''dkt-1002''" by code_simp
  then have h2: "match_DKT (input ?s) \<noteq> None" by simp
  have t: "trim ''  please UPDATE dkt-1002 '' = ''please UPDATE dkt-1002''" by code_simp
  show ?thesis
    using update_precedes_lookup [OF h1 h2, of PostOk "GetOk docket_1002" GenThrew "''m5''" "''m6''"] m t
    by (simp add: update_branch_def updateDocketStatus_def addMessage_def evidence_state_def
        truthy_def pod_image_def docket_1001_def)
qed

text \<open>
  Claim C8: a lookup of \<open>i\<close> that yields no docket, because the store answers that
  it has none or because the call throws, adds the message that \<open>i\<close> was not found, which
  lists the three seeded identifiers, and leaves the active docket and the pending image as
  they were.
\<close>

theorem lookup_not_found:
  assumes "classify (trim (input s)) = DocketLookup i"
    and "gr = GetNotOk \<or> gr = GetThrew"
  shows "requests (handleSend pr gr ar id1 id2 s) = requests s @ [GetDocket i]
       \<and> messages (handleSend pr gr ar id1 id2 s) =
           messages s @ [\<lparr>id_m = id1, role = User, content = trim (input s), image_m = None, status_m = None\<rparr>,
                         \<lparr>id_m = id2, role = Assistant, content = not_found i, image_m = None, status_m = None\<rparr>]
       \<and> list_all (\<lambda>r. includes_str (not_found i) (fst r)) seed_rows
       \<and> currentDocket (handleSend pr gr ar id1 id2 s) = currentDocket s
       \<and> pendingPodImage (handleSend pr gr ar id1 id2 s) = pendingPodImage s"
  using assms not_found_lists_seeds [of i]
  by (auto simp: handleSend_lookup search_branch_def fetchDocket_def addMessage_def)

theorem lookup_not_found_witness:
  "requests (handleSend PostOk GetNotOk GenThrew ''m5'' ''m6'' (evidence_state\<lparr>input := ''dkt-9999''\<rparr>))
     = [GetDocket ''DKT-1001'', VerifyPOD docket_1001 (Some ''/9j/4AAQSkZJRg==''), GetDocket ''DKT-9999'']
   \<and> content (last (messages (handleSend PostOk GetNotOk GenThrew ''m5'' ''m6'' (evidence_state\<lparr>input := ''dkt-9999''\<rparr>))))
     = ''Sorry, I couldn't find docket **DKT-9999**. Try DKT-1001, DKT-1002, or DKT-1003.''
   \<and> currentDocket (handleSend PostOk GetNotOk GenThrew ''m5'' ''m6'' (evidence_state\<lparr>input := ''dkt-9999''\<rparr>)) = Some docket_1001
   \<and> pendingPodImage (handleSend PostOk GetNotOk GenThrew ''m5'' ''m6'' (evidence_state\<lparr>input := ''dkt-9999''\<rparr>)) = Some pod_image
   \<and> api_get (seed ''2026-01-01 00:00:00'' []) ''DKT-9999'' = GetNotOk"
proof -
  let ?s = "evidence_state\<lparr>input := ''dkt-9999''\<rparr>"
  have "classify (trim ''dkt-9999'') = DocketLookup ''DKT-9999''" by code_simp
  then have h1: "classify (trim (input ?s)) = DocketLookup ''DKT-9999''" by simp
  have h2: "GetNotOk = GetNotOk \<or> GetNotOk = GetThrew" by simp
  have g: "api_get (seed ''2026-01-01 00:00:00'' []) ''DKT-9999'' = GetNotOk"
    by (simp add: api_get_def seed_def seed_rows_def insert_row_def)
  show ?thesis
    using lookup_not_found [OF h1 h2, of PostOk GenThrew "''m5''" "''m6''"] g
    by (simp add: evidence_state_def not_found_def)
qed

text \<open>
  Claim C10: when the input is empty or white space only, \<^verbatim>\<open>handleSend\<close> changes
  nothing: no message is added, no request is made, and the active docket and the pending
  image are as before.
\<close>

theorem blank_input_noop:
  assumes "\<forall>c\<in>set (input s). is_space c"
  shows "handleSend pr gr ar id1 id2 s = s"
proof -
  have "trim (input s) = []" using assms by (simp add: trim_Nil_iff)
  then show ?thesis by (simp add: handleSend_def)
qed

theorem blank_input_noop_witness:
  "handleSend PostOk (GetOk docket_1002) (GenText (Some ''hello'')) ''m5'' ''m6''
     (evidence_state\<lparr>input := [CHR 0x20, CHR 0x09, CHR 0x20]\<rparr>)
   = evidence_state\<lparr>input := [CHR 0x20, CHR 0x09, CHR 0x20]\<rparr>"
proof -
  let ?s = "evidence_state\<lparr>input := [CHR 0x20, CHR 0x09, CHR 0x20]\<rparr>"
  have h: "\<forall>c\<in>set (input ?s). is_space c" by (simp add: is_space_def)
  show ?thesis
    using blank_input_noop [OF h, of PostOk "GetOk docket_1002" "GenText (Some ''hello'')" "''m5''" "''m6''"]
    by simp
qed

section \<open>Verifying an image\<close>

lemmas analyzePOD_defs =
  analyzePOD_def analyzePOD_begin_def analyzePOD_settle_def analyzePOD_try_def
  analyzePOD_catch_def analyzePOD_finally_def catch_with_def finally_do_def
  setMessages_def addMessage_def

text \<open>A run from call to verdict with nothing in between.\<close>

lemma analyzePOD_atomic_verdict:
  assumes "t \<noteq> []"
  shows "\<exists>s'. analyzePOD (GenText (Some t)) msgId img d s = Returned s'
       \<and> messages s' = updateMessageStatus msgId (Some Success) (Some t)
            (messages s @ [\<lparr>id_m = msgId, role = Assistant, content = analyzing, image_m = None, status_m = Some Loading\<rparr>])
       \<and> last (messages s') = \<lparr>id_m = msgId, role = Assistant, content = t, image_m = None, status_m = Some Success\<rparr>
       \<and> pendingPodImage s' = (if includes_str (toLowerCase t) ''pod is good'' then Some img else pendingPodImage s)
       \<and> currentDocket s' = currentDocket s
       \<and> (pendingPodImage s \<noteq> Some img \<longrightarrow>
            (pendingPodImage s' = Some img \<longleftrightarrow> includes_str (toLowerCase t) ''pod is good''))
       \<and> (currentDocket s = Some d \<and> img \<noteq> [] \<and> includes_str (toLowerCase t) ''pod is good''
            \<longrightarrow> phase s' = EvidencePending)
       \<and> (\<not> includes_str (toLowerCase t) ''pod is good'' \<longrightarrow> phase s' = phase s)"
  using assms
  by (simp add: analyzePOD_defs or_else_def Let_def updateMessageStatus_def phase_def truthy_def)

text \<open>The loading message of a waiting run stays in the log: the handlers only add
  messages or rewrite status and content.\<close>

lemma updateMessageStatus_ids: "map id_m (updateMessageStatus i st c ms) = map id_m ms"
  by (simp add: updateMessageStatus_def)
















lemma run_append: "run (es @ es') = foldl step (run es) es'"
  by (simp add: run_def)

lemma run_waiting_session: "run waiting_session = waiting_state"
  by code_simp




text \<open>When the docket was cleared while the verifier was at work, the accepted image
  becomes pending without an active docket.\<close>

lemma verdict_after_reset:
  "currentDocket (run (waiting_session @ [Reset, VerifierReplies 0 (GenText (Some good_verdict))])) = None
   \<and> pendingPodImage (run (waiting_session @ [Reset, VerifierReplies 0 (GenText (Some good_verdict))])) = Some pod_image
   \<and> phase (run (waiting_session @ [Reset, VerifierReplies 0 (GenText (Some good_verdict))])) = NoDocket"
proof -
  have g: "includes_str (toLowerCase good_verdict) ''pod is good''" by code_simp
  have "good_verdict \<noteq> []" by (simp add: good_verdict_def)
  then show ?thesis
    using g
    by (simp add: run_append run_waiting_session waiting_state_def clearDocket_def
        analyzePOD_settle_def analyzePOD_try_def analyzePOD_catch_def analyzePOD_finally_def
        catch_with_def finally_do_def state_of_def setMessages_def or_else_def Let_def phase_def)
qed

text \<open>
  Claim C6, as stated: when the verifier call fails or returns no usable text, the
  loading message becomes an error message with the apology. It fails for an answer without
  text: \<^verbatim>\<open>result.text || "I couldn't analyze the image properly."\<close> puts the fallback
  text in its place, and the message becomes a success message.
\<close>

theorem empty_verdict_is_success:
  "status_m (last (messages (state_of (analyzePOD (GenText (Some [])) ''m4'' pod_image docket_1001 initial)))) = Some Success
   \<and> status_m (last (messages (state_of (analyzePOD (GenText (Some [])) ''m4'' pod_image docket_1001 initial)))) \<noteq> Some Error
   \<and> content (last (messages (state_of (analyzePOD (GenText (Some [])) ''m4'' pod_image docket_1001 initial)))) = unreadable"
  by (simp add: analyzePOD_defs or_else_def Let_def updateMessageStatus_def state_of_def unreadable_not_good initial_def)

text \<open>
  Claim C6, amended: when the verifier call throws, the loading message becomes an error
  message with the apology; when it returns an empty or a missing text, the loading message
  becomes a success message with the fallback text. In both cases the run returns, and the
  active docket and the pending image are as before.
\<close>

theorem analyzePOD_no_verdict:
  assumes "reply = GenThrew \<or> reply = GenText None \<or> reply = GenText (Some [])"
  shows "\<exists>s'. analyzePOD reply msgId img d s = Returned s'
       \<and> last (messages s') =
            \<lparr>id_m = msgId, role = Assistant,
             content = (if reply = GenThrew then apology else unreadable),
             image_m = None,
             status_m = Some (if reply = GenThrew then Error else Success)\<rparr>
       \<and> messages s' = updateMessageStatus msgId
            (Some (if reply = GenThrew then Error else Success))
            (Some (if reply = GenThrew then apology else unreadable))
            (messages s @ [\<lparr>id_m = msgId, role = Assistant, content = analyzing, image_m = None, status_m = Some Loading\<rparr>])
       \<and> currentDocket s' = currentDocket s
       \<and> pendingPodImage s' = pendingPodImage s"
  using assms unreadable_not_good
  by (auto simp: analyzePOD_defs or_else_def Let_def updateMessageStatus_def)

theorem analyzePOD_no_verdict_witness:
  "last (messages (state_of (analyzePOD GenThrew ''m5'' pod_image docket_1001 evidence_state)))
     = \<lparr>id_m = ''m5'', role = Assistant, content = apology, image_m = None, status_m = Some Error\<rparr>
   \<and> last (messages (state_of (analyzePOD (GenText None) ''m5'' pod_image docket_1001 evidence_state)))
     = \<lparr>id_m = ''m5'', role = Assistant, content = unreadable, image_m = None, status_m = Some Success\<rparr>
   \<and> currentDocket (state_of (analyzePOD GenThrew ''m5'' pod_image docket_1001 evidence_state)) = Some docket_1001
   \<and> pendingPodImage (state_of (analyzePOD GenThrew ''m5'' pod_image docket_1001 evidence_state)) = Some pod_image"
proof -
  have h1: "GenThrew = GenThrew \<or> GenThrew = GenText None \<or> GenThrew = GenText (Some [])" by simp
  have h2: "GenText None = GenThrew \<or> GenText None = GenText None \<or> GenText None = GenText (Some [])" by simp
  have e: "currentDocket evidence_state = Some docket_1001 \<and> pendingPodImage evidence_state = Some pod_image"
    by (simp add: evidence_state_def)
  show ?thesis
    using analyzePOD_no_verdict [OF h1, of "''m5''" pod_image docket_1001 evidence_state]
      analyzePOD_no_verdict [OF h2, of "''m5''" pod_image docket_1001 evidence_state] e
    by (auto simp: state_of_def)
qed

text \<open>
  Claim C9: \<^verbatim>\<open>updateMessageStatus\<close> with identifier \<open>i\<close> keeps the length and the
  order of the log, and the identifier, role and image of every message; a message whose
  identifier is not \<open>i\<close> is unchanged, and one whose identifier is \<open>i\<close> gets the new
  status and content. A run of \<^verbatim>\<open>analyzePOD\<close> that resumes touches the log only through
  this function, with the identifier of the loading message it created.
\<close>

theorem updateMessageStatus_frame:
  "length (updateMessageStatus i st c ms) = length ms
   \<and> map id_m (updateMessageStatus i st c ms) = map id_m ms
   \<and> map role (updateMessageStatus i st c ms) = map role ms
   \<and> map image_m (updateMessageStatus i st c ms) = map image_m ms
   \<and> (\<forall>k<length ms. id_m (ms ! k) \<noteq> i \<longrightarrow> updateMessageStatus i st c ms ! k = ms ! k)
   \<and> (\<forall>k<length ms. id_m (ms ! k) = i \<longrightarrow>
         updateMessageStatus i st c ms ! k =
           (ms ! k)\<lparr>status_m := st, content := (case c of Some x \<Rightarrow> x | None \<Rightarrow> content (ms ! k))\<rparr>)
   \<and> (\<exists>st' c'. messages (state_of (analyzePOD_settle reply i img s)) = updateMessageStatus i st' c' (messages s))"
proof -
  have "\<exists>st' c'. messages (state_of (analyzePOD_settle reply i img s)) = updateMessageStatus i st' c' (messages s)"
    by (cases reply)
      (auto simp: analyzePOD_settle_def analyzePOD_try_def analyzePOD_catch_def analyzePOD_finally_def
        catch_with_def finally_do_def state_of_def setMessages_def Let_def)
  then show ?thesis by (simp add: updateMessageStatus_def)
qed

theorem updateMessageStatus_frame_witness:
  "updateMessageStatus ''m4'' (Some Error) (Some apology) (messages evidence_state) ! 3 = messages evidence_state ! 3
   \<and> updateMessageStatus ''m4'' (Some Error) (Some apology) (messages evidence_state) ! 4
     = \<lparr>id_m = ''m4'', role = Assistant, content = apology, image_m = None, status_m = Some Error\<rparr>
   \<and> length (updateMessageStatus ''m4'' (Some Error) (Some apology) (messages evidence_state)) = 5"
proof -
  let ?ms = "messages evidence_state"
  have l: "length ?ms = 5" by (simp add: evidence_state_def)
  have i3: "id_m (?ms ! 3) \<noteq> ''m4''" by (simp add: evidence_state_def)
  have i4: "id_m (?ms ! 4) = ''m4''" by (simp add: evidence_state_def)
  have m4: "?ms ! 4 = \<lparr>id_m = ''m4'', role = Assistant, content = good_verdict, image_m = None, status_m = Some Success\<rparr>"
    by (simp add: evidence_state_def)
  show ?thesis
    using updateMessageStatus_frame [of "''m4''" "Some Error" "Some apology" ?ms GenThrew pod_image evidence_state]
      l i3 i4 m4
    by simp
qed

end
